theory Spec2Isabelle
  imports Complex_Main "HOL-Library.Word"
begin

section \<open>JavaScript strings\<close>

text \<open>
  A JavaScript string is a sequence of UTF-16 code units, and \<^verbatim>\<open>includes\<close> and
  \<^verbatim>\<open>toLowerCase\<close> work on it as such. A string literal of the source that holds ASCII
  characters only is written \<open>utf16 ''...''\<close>: one code unit, the character's number, for
  each character.
\<close>

type_synonym code_unit = "16 word"

type_synonym js_string = "code_unit list"

definition utf16 :: "string \<Rightarrow> js_string" where
  "utf16 s = map (\<lambda>c. of_nat (of_char c)) s"

text \<open>\<^verbatim>\<open>s.startsWith(t)\<close>: \<open>t\<close> is read off the front of \<open>s\<close>.\<close>

fun startsWith :: "js_string \<Rightarrow> js_string \<Rightarrow> bool" where
  "startsWith s [] = True"
| "startsWith [] (d # t) = False"
| "startsWith (c # s) (d # t) = (c = d \<and> startsWith s t)"

text \<open>
  \<^verbatim>\<open>s.includes(t)\<close> (the plain name is a keyword of Isabelle): the search tries
  every start position of \<open>s\<close> from the left, the position after the last code unit
  included (where only the empty string is found).
\<close>

fun includes_js :: "js_string \<Rightarrow> js_string \<Rightarrow> bool" where
  "includes_js [] t = startsWith [] t"
| "includes_js (c # s) t = (startsWith (c # s) t \<or> includes_js s t)"

text \<open>The decimal digits of a number in a template literal, \<^verbatim>\<open>`${n}`\<close>.\<close>

definition digitChar :: "nat \<Rightarrow> code_unit" where
  "digitChar d = utf16 ''0123456789'' ! d"

function showNat :: "nat \<Rightarrow> js_string" where
  "showNat n = (if n < 10 then [digitChar n] else showNat (n div 10) @ [digitChar (n mod 10)])"
  by pat_completeness auto
termination
  by (relation "measure id") auto

declare showNat.simps [simp del]


section \<open>Lower case\<close>

text \<open>
  \<^verbatim>\<open>String.prototype.toLowerCase\<close> is a built-in of the JavaScript engine and follows
  the case mappings of the Unicode Character Database. It is not defined here for all of
  Unicode. Two things are: what it does to ASCII text, and a function that agrees with it
  on text made of ASCII characters and the letters of the Greek alphabet.

  On ASCII text the built-in replaces each of \<open>A\<close> to \<open>Z\<close> (code units 0x41 to 0x5A) by
  the letter 0x20 further on and keeps every other character.
\<close>

definition isAscii :: "code_unit \<Rightarrow> bool" where
  "isAscii c = (c < 0x80)"

definition asciiString :: "js_string \<Rightarrow> bool" where
  "asciiString t = list_all isAscii t"

definition asciiUpper :: "code_unit \<Rightarrow> bool" where
  "asciiUpper c = (0x41 \<le> c \<and> c \<le> 0x5A)"

definition asciiLower :: "code_unit \<Rightarrow> bool" where
  "asciiLower c = (0x61 \<le> c \<and> c \<le> 0x7A)"

definition lowerAscii :: "code_unit \<Rightarrow> code_unit" where
  "lowerAscii c = (if asciiUpper c then c + 0x20 else c)"

text \<open>
  Two ASCII characters that differ at most in case: they are equal, or one is a capital
  letter and the other one its small letter. An occurrence of \<open>q\<close> in \<open>t\<close> without regard to
  case is a contiguous part of \<open>t\<close> itself that matches \<open>q\<close> character by character in that
  sense. Neither definition lowers anything.
\<close>

definition sameLetter :: "code_unit \<Rightarrow> code_unit \<Rightarrow> bool" where
  "sameLetter c d =
     (c = d \<or> (asciiUpper c \<and> d = c + 0x20) \<or> (asciiUpper d \<and> c = d + 0x20))"

definition occursIgnoringCase :: "js_string \<Rightarrow> js_string \<Rightarrow> bool" where
  "occursIgnoringCase q t = (\<exists>p u r. t = p @ u @ r \<and> list_all2 sameLetter u q)"

text \<open>
  The Greek capital letters are U+0391 to U+03A9 (U+03A2 is not assigned), the small
  letters U+03B1 to U+03C9, each 0x20 after its capital. Capital sigma, U+03A3, has two
  small forms, and which one the built-in picks depends on the letters around it (the
  condition \<open>Final_Sigma\<close> of \<^verbatim>\<open>SpecialCasing.txt\<close>): the final form U+03C2 when a cased
  letter comes before it and none comes after it, characters that case ignores skipped
  on both sides, and U+03C3 otherwise. Among the ASCII characters case ignores the
  apostrophe, the full stop, the colon, the circumflex and the grave accent.
\<close>

definition greekUpper :: "code_unit \<Rightarrow> bool" where
  "greekUpper c = (0x0391 \<le> c \<and> c \<le> 0x03A9 \<and> c \<noteq> 0x03A2)"

definition greekLower :: "code_unit \<Rightarrow> bool" where
  "greekLower c = (0x03B1 \<le> c \<and> c \<le> 0x03C9)"

definition cased :: "code_unit \<Rightarrow> bool" where
  "cased c = (asciiUpper c \<or> asciiLower c \<or> greekUpper c \<or> greekLower c)"

definition caseIgnorable :: "code_unit \<Rightarrow> bool" where
  "caseIgnorable c = (c = 0x27 \<or> c = 0x2E \<or> c = 0x3A \<or> c = 0x5E \<or> c = 0x60)"

definition lowerUnit :: "code_unit \<Rightarrow> code_unit" where
  "lowerUnit c = (if asciiUpper c \<or> greekUpper c then c + 0x20 else c)"

text \<open>Whether a cased letter follows, characters that case ignores skipped.\<close>

fun followedByCased :: "js_string \<Rightarrow> bool" where
  "followedByCased [] = False"
| "followedByCased (c # cs) =
     (if cased c then True else if caseIgnorable c then followedByCased cs else False)"

text \<open>
  The string is lowered from left to right; the flag says whether a cased letter comes
  before the current position, characters that case ignores skipped.
\<close>

fun lowerFrom :: "bool \<Rightarrow> js_string \<Rightarrow> js_string" where
  "lowerFrom before [] = []"
| "lowerFrom before (c # cs) =
     (if c = 0x03A3 then (if before \<and> \<not> followedByCased cs then 0x03C2 else 0x03C3)
      else lowerUnit c)
     # lowerFrom (if cased c then True else if caseIgnorable c then before else False) cs"

text \<open>
  \<open>lowerCaseLatinGreek\<close> is \<^verbatim>\<open>toLowerCase\<close> on the strings whose code units are ASCII
  characters or Greek letters of the two ranges above. Other code units it returns as
  they are and takes for characters that have no case and that case does not ignore,
  which is not what the built-in does to every one of them: the function stands for the
  built-in at strings of ASCII characters and those Greek letters, and nowhere else.
\<close>

definition lowerCaseLatinGreek :: "js_string \<Rightarrow> js_string" where
  "lowerCaseLatinGreek s = lowerFrom False s"


section \<open>Data model (types.ts)\<close>

text \<open>
  The three interfaces of \<^verbatim>\<open>types.ts\<close>. A subject carries one of three statuses, a
  student one of two: the union types \<^verbatim>\<open>'PASS' | 'FAIL' | 'ABSENT'\<close> and
  \<^verbatim>\<open>'PASS' | 'FAIL'\<close> are two datatypes.
\<close>

datatype status = PASS | FAIL | ABSENT

datatype result_status = Result_PASS | Result_FAIL

text \<open>
  A JavaScript \<^verbatim>\<open>number\<close> that holds a measured value: a finite value, NaN or an
  infinity. Finite values are exact rationals here; the rounding of IEEE doubles and the
  sign of zero are not modelled. Counts (lengths of arrays) are natural numbers.
\<close>

datatype number = Finite (finite_value: rat) | NaN | PosInfinity | NegInfinity

text \<open>\<^verbatim>\<open>mark: number | string\<close>, "Could be AB, F, or numeric".\<close>

datatype mark_value = Mark_number number | Mark_string js_string

record SubjectMark =
  subject :: js_string
  mark :: mark_value
  status :: status
  color :: js_string

record StudentData =
  regNo :: js_string
  name :: js_string
  dept :: js_string
  subjects :: "SubjectMark list"
  totalMarks :: number
  resultStatus :: result_status
  absentCount :: nat

record ParsingStats =
  totalStudents :: nat
  totalPassed :: nat
  totalFailed :: nat
  averageScore :: number


section \<open>JavaScript numbers\<close>

text \<open>
  \<^verbatim>\<open>x + y\<close> and \<^verbatim>\<open>x / y\<close> on numbers: NaN spreads, opposite infinities cancel to
  NaN, and a division by zero is no exception but NaN (for \<open>0 / 0\<close>) or an infinity.
\<close>

fun js_add :: "number \<Rightarrow> number \<Rightarrow> number" where
  "js_add (Finite a) (Finite b) = Finite (a + b)"
| "js_add NaN y = NaN"
| "js_add x NaN = NaN"
| "js_add PosInfinity NegInfinity = NaN"
| "js_add NegInfinity PosInfinity = NaN"
| "js_add PosInfinity y = PosInfinity"
| "js_add x PosInfinity = PosInfinity"
| "js_add NegInfinity y = NegInfinity"
| "js_add x NegInfinity = NegInfinity"

fun js_div :: "number \<Rightarrow> number \<Rightarrow> number" where
  "js_div (Finite a) (Finite b) =
     (if b = 0 then (if a = 0 then NaN else if 0 < a then PosInfinity else NegInfinity)
      else Finite (a / b))"
| "js_div NaN y = NaN"
| "js_div x NaN = NaN"
| "js_div (Finite a) y = Finite 0"
| "js_div PosInfinity (Finite b) = (if b < 0 then NegInfinity else PosInfinity)"
| "js_div NegInfinity (Finite b) = (if b < 0 then PosInfinity else NegInfinity)"
| "js_div PosInfinity y = NaN"
| "js_div NegInfinity y = NaN"

text \<open>The sum of an array of numbers, starting from 0.\<close>

primrec js_sum :: "number list \<Rightarrow> number" where
  "js_sum [] = Finite 0"
| "js_sum (x # xs) = js_add x (js_sum xs)"


section \<open>The App component (App.tsx)\<close>

text \<open>
  What a handler of the component can touch: the five \<^verbatim>\<open>useState\<close> cells, and the
  world around them as far as the handlers write to it: the toasts shown, the errors
  logged to the console, the \<^verbatim>\<open>value\<close> of the file input, and the files the browser
  has been made to download (\<open>'d\<close> is what one download is).
\<close>

datatype js_error = JsError (message: "js_string option")

datatype toast = ToastSuccess js_string | ToastError js_string

record 'd app =
  students :: "StudentData list"
  stats :: "ParsingStats option"
  loading :: bool
  searchQuery :: js_string
  errorShake :: bool
  toasts :: "toast list"
  console :: "js_error list"
  inputValue :: js_string
  downloads :: "'d list"

text \<open>
  \<^verbatim>\<open>triggerError\<close> raises the shake flag; the timer that lowers it 820 ms later is a
  later event and not part of the handler's run.
\<close>

definition triggerError :: "'d app \<Rightarrow> 'd app" where
  "triggerError s = s\<lparr>errorShake := True\<rparr>"

text \<open>\<^verbatim>\<open>err.message || "Failed to parse file"\<close>: a missing or empty message is falsy.\<close>

definition errorText :: "js_error \<Rightarrow> js_string" where
  "errorText err =
     (case message err of
        None \<Rightarrow> (utf16 ''Failed to parse file'')
      | Some m \<Rightarrow> if m = [] then (utf16 ''Failed to parse file'') else m)"

text \<open>
  \<^verbatim>\<open>handleFileUpload\<close>. The arguments are \<^verbatim>\<open>processFile\<close> of
  \<^verbatim>\<open>services/processor\<close>, as the outcome of its promise for each file (\<open>Inl\<close> a
  rejection, \<open>Inr\<close> the pair \<^verbatim>\<open>{data, stats}\<close>), and \<^verbatim>\<open>event.target.files?.[0]\<close>.
  With no file the handler returns before it touches anything. Otherwise the list and the
  stats are cleared before the \<^verbatim>\<open>try\<close>, and the \<^verbatim>\<open>finally\<close> block runs on both
  paths.
\<close>

definition handleFileUpload ::
  "('f \<Rightarrow> js_error + StudentData list \<times> ParsingStats) \<Rightarrow> 'f option \<Rightarrow> 'd app \<Rightarrow> 'd app"
where
  "handleFileUpload processFile file s =
     (case file of
        None \<Rightarrow> s
      | Some f \<Rightarrow>
          let s1 = s\<lparr>loading := True, students := [], stats := None\<rparr>;
              s2 = (case processFile f of
                      Inr (data, st) \<Rightarrow>
                        s1\<lparr>students := data, stats := Some st,
                           toasts := toasts s1 @
                             [ToastSuccess (utf16 ''Successfully parsed '' @ showNat (length data)
                                @ (utf16 '' records!''))]\<rparr>
                    | Inl err \<Rightarrow>
                        (let s' = triggerError (s1\<lparr>console := console s1 @ [err]\<rparr>)
                         in s'\<lparr>toasts := toasts s' @ [ToastError (errorText err)]\<rparr>))
          in s2\<lparr>loading := False, inputValue := []\<rparr>)"

text \<open>
  \<^verbatim>\<open>handleDownloadAll\<close>. The arguments are \<^verbatim>\<open>window.confirm\<close> (the user's answer
  to a message) and \<^verbatim>\<open>generateAllReports\<close> of \<^verbatim>\<open>services/processor\<close>: the files it
  downloads for a list, and the error it throws, if it throws one.
\<close>

definition handleDownloadAll ::
  "(js_string \<Rightarrow> bool) \<Rightarrow> (StudentData list \<Rightarrow> 'd list \<times> js_error option) \<Rightarrow> 'd app \<Rightarrow> 'd app"
where
  "handleDownloadAll confirm generateAllReports s =
     (if length (students s) = 0 then s
      else if \<not> confirm (utf16 ''Generate '' @ showNat (length (students s))
                @ (utf16 '' PDF files? This might take a moment.'')) then s
      else
        let s1 = s\<lparr>loading := True\<rparr>;
            (files, thrown) = generateAllReports (students s1);
            s2 = s1\<lparr>downloads := downloads s1 @ files\<rparr>;
            s3 = (case thrown of
                    None \<Rightarrow> s2\<lparr>toasts := toasts s2 @ [ToastSuccess (utf16 ''All reports generated!'')]\<rparr>
                  | Some e \<Rightarrow>
                      s2\<lparr>toasts := toasts s2 @ [ToastError (utf16 ''Error generating batch reports'')]\<rparr>)
        in s3\<lparr>loading := False\<rparr>)"

text \<open>The search box: \<^verbatim>\<open>onChange={(e) => setSearchQuery(e.target.value)}\<close>.\<close>

definition setSearchQuery :: "js_string \<Rightarrow> 'd app \<Rightarrow> 'd app" where
  "setSearchQuery q s = s\<lparr>searchQuery := q\<rparr>"

text \<open>
  \<^verbatim>\<open>filteredStudents\<close>, computed on every render from the list and the query:
  \<^verbatim>\<open>filter\<close> with the two \<^verbatim>\<open>includes\<close> tests, then \<^verbatim>\<open>slice(0, 20)\<close>. The first
  argument is the engine's \<^verbatim>\<open>String.prototype.toLowerCase\<close>.
\<close>

definition filteredStudents :: "(js_string \<Rightarrow> js_string) \<Rightarrow> 'd app \<Rightarrow> StudentData list" where
  "filteredStudents toLowerCase s =
     take 20 (filter
       (\<lambda>x. includes_js (toLowerCase (regNo x)) (toLowerCase (searchQuery s)) \<or>
            includes_js (toLowerCase (name x)) (toLowerCase (searchQuery s)))
       (students s))"


section \<open>The Stats Aggregator\<close>

text \<open>
  Modelled from the spec: the Stats Aggregator. The function that computes
  \<^verbatim>\<open>ParsingStats\<close> is part of \<^verbatim>\<open>services/processor\<close>, which is not among the
  sources; only its result type is (\<^verbatim>\<open>types.ts\<close>). The specification gives its
  contract: "given the full StudentData list (may be empty), compute: total count; count
  where resultStatus = PASS; count where resultStatus = FAIL; average of totalMarks across
  all students (0 when list is empty -- division-by-zero must be guarded, not propagated
  as NaN/error)".
\<close>

definition statsAggregator :: "StudentData list \<Rightarrow> ParsingStats" where
  "statsAggregator records =
     \<lparr> totalStudents = length records,
       totalPassed = length (filter (\<lambda>s. resultStatus s = Result_PASS) records),
       totalFailed = length (filter (\<lambda>s. resultStatus s = Result_FAIL) records),
       averageScore =
         (if length records = 0 then Finite 0
          else js_div (js_sum (map totalMarks records)) (Finite (of_nat (length records)))) \<rparr>"


section \<open>Example data\<close>

text \<open>
  Two students, a session that shows them, and a session whose upload gave an empty list.
\<close>

definition alice :: StudentData where
  "alice =
     \<lparr> regNo = utf16 ''S001'', name = utf16 ''Alice'', dept = utf16 ''CSE'',
       subjects =
         [\<lparr> subject = utf16 ''Math'', mark = Mark_string (utf16 ''AB''), status = ABSENT,
            color = utf16 ''#f59e0b'' \<rparr>,
          \<lparr> subject = utf16 ''Science'', mark = Mark_number (Finite 40), status = PASS,
            color = utf16 ''#22c55e'' \<rparr>],
       totalMarks = Finite 40, resultStatus = Result_FAIL, absentCount = 1 \<rparr>"

definition bob :: StudentData where
  "bob =
     \<lparr> regNo = utf16 ''S002'', name = utf16 ''Bob'', dept = utf16 ''ECE'',
       subjects =
         [\<lparr> subject = utf16 ''Math'', mark = Mark_number (Finite 80), status = PASS,
            color = utf16 ''#22c55e'' \<rparr>],
       totalMarks = Finite 80, resultStatus = Result_PASS, absentCount = 0 \<rparr>"

definition session :: "js_string app" where
  "session =
     \<lparr> students = [alice, bob],
       stats = Some \<lparr> totalStudents = 2, totalPassed = 1, totalFailed = 1,
                     averageScore = Finite 60 \<rparr>,
       loading = False, searchQuery = [], errorShake = False,
       toasts = [ToastSuccess (utf16 ''Successfully parsed 2 records!'')], console = [],
       inputValue = utf16 ''C:/fakepath/marks.csv'', downloads = [] \<rparr>"

definition emptySession :: "js_string app" where
  "emptySession =
     \<lparr> students = [],
       stats = Some \<lparr> totalStudents = 0, totalPassed = 0, totalFailed = 0,
                     averageScore = Finite 0 \<rparr>,
       loading = False, searchQuery = [], errorShake = False,
       toasts = [], console = [], inputValue = [], downloads = [] \<rparr>"

text \<open>The session with 25 copies of Alice before Bob: 26 students with an \<open>S00\<close> number.\<close>

definition crowd :: "js_string app" where
  "crowd = session\<lparr>students := replicate 25 alice @ [bob]\<rparr>"

text \<open>A \<^verbatim>\<open>processFile\<close> that rejects every file, as for an unreadable upload.\<close>

definition rejectingProcessFile :: "string \<Rightarrow> js_error + StudentData list \<times> ParsingStats" where
  "rejectingProcessFile f = Inl (JsError (Some (utf16 ''Unsupported file format'')))"

text \<open>A \<^verbatim>\<open>generateAllReports\<close> that downloads one file and then throws.\<close>

definition failingGenerateAllReports :: "StudentData list \<Rightarrow> js_string list \<times> js_error option" where
  "failingGenerateAllReports l = ([(utf16 ''report.pdf'')], Some (JsError None))"

text \<open>
  A student whose name is written in Greek capitals, omicron delta omicron sigma
  (U+039F U+0394 U+039F U+03A3), alone in a session, and the query of one capital sigma.
\<close>

definition odos :: StudentData where
  "odos =
     \<lparr> regNo = utf16 ''S003'', name = [0x039F, 0x0394, 0x039F, 0x03A3], dept = utf16 ''CSE'',
       subjects =
         [\<lparr> subject = utf16 ''Math'', mark = Mark_number (Finite 70), status = PASS,
            color = utf16 ''#22c55e'' \<rparr>],
       totalMarks = Finite 70, resultStatus = Result_PASS, absentCount = 0 \<rparr>"

definition greekSession :: "js_string app" where
  "greekSession = session\<lparr>students := [odos]\<rparr>"

definition sigmaQuery :: js_string where
  "sigmaQuery = [0x03A3]"


section \<open>Strings: what the search finds\<close>

lemma startsWith_iff: "startsWith s t \<longleftrightarrow> (\<exists>r. s = t @ r)"
  by (induction s t rule: startsWith.induct) auto

text \<open>
  \<open>includes_js\<close> finds \<open>t\<close> exactly when \<open>t\<close> is a contiguous part of \<open>s\<close>. By induction
  on \<open>s\<close>: an occurrence either starts at the front or lies in the tail.
\<close>

lemma includes_js_iff: "includes_js s t \<longleftrightarrow> (\<exists>p r. s = p @ t @ r)"
proof (induction s)
  case Nil
  then show ?case by (auto simp: startsWith_iff)
next
  case (Cons c s)
  show ?case
  proof
    assume "includes_js (c # s) t"
    then consider "startsWith (c # s) t" | "includes_js s t" by auto
    then show "\<exists>p r. c # s = p @ t @ r"
    proof cases
      case 1
      then obtain r where "c # s = t @ r" by (auto simp: startsWith_iff)
      then have "c # s = [] @ t @ r" by simp
      then show ?thesis by blast
    next
      case 2
      then obtain p r where "s = p @ t @ r" using Cons.IH by blast
      then have "c # s = (c # p) @ t @ r" by simp
      then show ?thesis by blast
    qed
  next
    assume "\<exists>p r. c # s = p @ t @ r"
    then obtain p r where eq: "c # s = p @ t @ r" by blast
    show "includes_js (c # s) t"
    proof (cases p)
      case Nil
      with eq have "startsWith (c # s) t" by (simp add: startsWith_iff)
      then show ?thesis by simp
    next
      case (Cons a p')
      with eq have "s = p' @ t @ r" by simp
      then have "includes_js s t" using Cons.IH by blast
      then show ?thesis by simp
    qed
  qed
qed

lemma includes_js_examples:
  "includes_js (utf16 ''abc'') [] \<and> includes_js [] [] \<and> \<not> includes_js [] (utf16 ''a'') \<and>
   includes_js (utf16 ''abc'') (utf16 ''bc'') \<and> \<not> includes_js (utf16 ''abc'') (utf16 ''ac'')"
  by code_simp

lemma showNat_examples:
  "showNat 0 = utf16 ''0'' \<and> showNat 25 = utf16 ''25'' \<and> showNat 1203 = (utf16 ''1203'')"
  by code_simp

text \<open>
  When both strings are changed character by character, by the same \<open>f\<close>, the changed
  query is found in the changed text exactly when a part of the text itself has the
  changed query as its image.
\<close>

lemma includes_js_map:
  "includes_js (map f t) (map f q) \<longleftrightarrow> (\<exists>p u r. t = p @ u @ r \<and> map f u = map f q)"
proof
  assume "includes_js (map f t) (map f q)"
  then obtain p' r' where "map f t = p' @ map f q @ r'"
    by (auto simp: includes_js_iff)
  then have "\<exists>us vs. t = us @ vs \<and> p' = map f us \<and> map f q @ r' = map f vs"
    by (simp only: map_eq_append_conv)
  then obtain p v where tv: "t = p @ v" and v: "map f q @ r' = map f v"
    by blast
  from v have "\<exists>us vs. v = us @ vs \<and> map f q = map f us \<and> r' = map f vs"
    by (simp only: append_eq_map_conv)
  then obtain u r where "v = u @ r" and "map f q = map f u"
    by blast
  with tv have "t = p @ u @ r" and "map f u = map f q"
    by simp_all
  then show "\<exists>p u r. t = p @ u @ r \<and> map f u = map f q"
    by blast
next
  assume "\<exists>p u r. t = p @ u @ r \<and> map f u = map f q"
  then obtain p u r where "t = p @ u @ r" and "map f u = map f q"
    by blast
  then have "map f t = map f p @ map f q @ map f r"
    by simp
  then show "includes_js (map f t) (map f q)"
    unfolding includes_js_iff by blast
qed

text \<open>Lowering makes two characters equal exactly when they differ at most in case.\<close>

lemma lowerAscii_eq_iff: "lowerAscii c = lowerAscii d \<longleftrightarrow> sameLetter c d"
  unfolding lowerAscii_def sameLetter_def asciiUpper_def
  by (auto simp: word_le_nat_alt word_less_nat_alt unat_word_ariths)

lemma map_lowerAscii_eq_iff: "map lowerAscii u = map lowerAscii q \<longleftrightarrow> list_all2 sameLetter u q"
proof -
  have "map lowerAscii u = map lowerAscii q \<longleftrightarrow>
          list_all2 (=) (map lowerAscii u) (map lowerAscii q)"
    by (simp add: list.rel_eq)
  also have "\<dots> \<longleftrightarrow> list_all2 (\<lambda>c d. lowerAscii c = lowerAscii d) u q"
    by (simp add: list.rel_map)
  finally show ?thesis
    by (simp add: lowerAscii_eq_iff)
qed

lemma includes_js_lowerAscii:
  "includes_js (map lowerAscii t) (map lowerAscii q) \<longleftrightarrow> occursIgnoringCase q t"
  by (simp add: includes_js_map map_lowerAscii_eq_iff occursIgnoringCase_def)

text \<open>On ASCII text \<open>lowerCaseLatinGreek\<close> is the ASCII lowering: no sigma is met.\<close>

lemma lowerFrom_ascii: "asciiString t \<Longrightarrow> lowerFrom before t = map lowerAscii t"
proof (induction t arbitrary: before)
  case Nil
  then show ?case by simp
next
  case (Cons c t)
  then have c: "isAscii c" and t: "asciiString t"
    by (simp_all add: asciiString_def)
  from c have "c \<noteq> 0x03A3" and "\<not> greekUpper c"
    by (auto simp: isAscii_def greekUpper_def word_le_nat_alt word_less_nat_alt)
  then have "lowerUnit c = lowerAscii c"
    by (simp add: lowerUnit_def lowerAscii_def)
  with \<open>c \<noteq> 0x03A3\<close> Cons.IH [OF t] show ?case
    by simp
qed

lemma lowerCaseLatinGreek_ascii: "asciiString t \<Longrightarrow> lowerCaseLatinGreek t = map lowerAscii t"
  by (simp add: lowerCaseLatinGreek_def lowerFrom_ascii)

lemma lowerCaseLatinGreek_examples:
  "lowerCaseLatinGreek (utf16 ''S001 Alice [AZ] @`{'') = utf16 ''s001 alice [az] @`{''
   \<and> lowerCaseLatinGreek [0x039F, 0x0394, 0x039F, 0x03A3] = [0x03BF, 0x03B4, 0x03BF, 0x03C2]
   \<and> lowerCaseLatinGreek [0x03A3] = [0x03C3]
   \<and> lowerCaseLatinGreek [0x41, 0x03A3] = [0x61, 0x03C2]
   \<and> lowerCaseLatinGreek [0x41, 0x2E, 0x03A3] = [0x61, 0x2E, 0x03C2]
   \<and> lowerCaseLatinGreek [0x41, 0x03A3, 0x42] = [0x61, 0x03C3, 0x62]"
  by code_simp

lemma js_sum_Finite: "js_sum (map Finite rs) = Finite (sum_list rs)"
  by (induction rs) auto


section \<open>The upload handler\<close>

text \<open>
  Claim C7. When \<^verbatim>\<open>processFile\<close> rejects the uploaded file, the handler leaves no
  record list: the student list is empty and the stats are gone, whatever was shown
  before. The error is shown as one more toast, with a text that is never empty (the
  error's message, or "Failed to parse file"). The file input's value is reset and the
  loading flag, which disables the input, is down again, so the upload can be tried
  again.
\<close>

theorem upload_failure_clears_and_notifies:
  assumes "processFile f = Inl err"
  shows "students (handleFileUpload processFile (Some f) s) = []
       \<and> stats (handleFileUpload processFile (Some f) s) = None
       \<and> toasts (handleFileUpload processFile (Some f) s) = toasts s @ [ToastError (errorText err)]
       \<and> errorText err \<noteq> []
       \<and> inputValue (handleFileUpload processFile (Some f) s) = []
       \<and> loading (handleFileUpload processFile (Some f) s) = False"
  using assms
  by (simp add: handleFileUpload_def triggerError_def errorText_def utf16_def Let_def
      split: option.splits)

text \<open>
  The session that shows Alice and Bob, and an upload of a file that is rejected: the two
  students and the stats are gone, the error's message is the second toast.
\<close>

theorem upload_failure_witness:
  "rejectingProcessFile ''notes.txt'' = Inl (JsError (Some (utf16 ''Unsupported file format'')))
   \<and> students (handleFileUpload rejectingProcessFile (Some ''notes.txt'') session) = []
   \<and> stats (handleFileUpload rejectingProcessFile (Some ''notes.txt'') session) = None
   \<and> toasts (handleFileUpload rejectingProcessFile (Some ''notes.txt'') session)
       = [ToastSuccess (utf16 ''Successfully parsed 2 records!''),
          ToastError (utf16 ''Unsupported file format'')]
   \<and> inputValue (handleFileUpload rejectingProcessFile (Some ''notes.txt'') session) = []
   \<and> loading (handleFileUpload rejectingProcessFile (Some ''notes.txt'') session) = False"
proof -
  have h: "rejectingProcessFile ''notes.txt'' = Inl (JsError (Some (utf16 ''Unsupported file format'')))"
    by (simp add: rejectingProcessFile_def)
  show ?thesis
    using h upload_failure_clears_and_notifies
      [of rejectingProcessFile "''notes.txt''" "JsError (Some (utf16 ''Unsupported file format''))"
          session]
    by (simp add: session_def errorText_def utf16_def)
qed


section \<open>The batch download\<close>

text \<open>
  Claim C8. With an empty student list \<^verbatim>\<open>handleDownloadAll\<close> returns at its first line:
  the state after it is the state before it. No file is downloaded, no toast is shown (so
  no error is reported), the user is not asked, and \<^verbatim>\<open>generateAllReports\<close> is not
  run, whatever it would have done.
\<close>

theorem batch_on_empty_list_is_noop:
  assumes "students s = []"
  shows "handleDownloadAll confirm generateAllReports s = s"
  using assms by (simp add: handleDownloadAll_def)

text \<open>
  The empty session, a user who would confirm and a report generator that would download
  a file and throw: nothing of it happens.
\<close>

theorem batch_on_empty_list_witness:
  "students emptySession = []
   \<and> handleDownloadAll (\<lambda>msg. True) failingGenerateAllReports emptySession = emptySession
   \<and> downloads (handleDownloadAll (\<lambda>msg. True) failingGenerateAllReports emptySession) = []
   \<and> toasts (handleDownloadAll (\<lambda>msg. True) failingGenerateAllReports emptySession) = []"
proof -
  have e: "students emptySession = []"
    by (simp add: emptySession_def)
  have "handleDownloadAll (\<lambda>msg. True) failingGenerateAllReports emptySession = emptySession"
    by (rule batch_on_empty_list_is_noop [OF e])
  then show ?thesis
    by (simp add: emptySession_def)
qed


section \<open>The preview\<close>

text \<open>
  Claim C10, amended. Whatever \<^verbatim>\<open>toLowerCase\<close> does, the preview after the query \<open>q\<close>
  is typed is the list of the students whose lowered registration number or lowered name
  has the lowered query as a contiguous part, in the order of the list, cut after the
  first 20; it never has more than 20 rows, and typing the query leaves the student list
  as it was. When the query and all registration numbers and names are ASCII text, on
  which \<^verbatim>\<open>toLowerCase\<close> lowers the letters \<open>A\<close> to \<open>Z\<close> one by one, these are exactly
  the students whose registration number or name has a part that equals the query up to
  the case of its letters.
\<close>

theorem preview_is_first_20_lowered_matches:
  "filteredStudents toLowerCase (setSearchQuery q s) =
     take 20 (filter
       (\<lambda>x. (\<exists>p r. toLowerCase (regNo x) = p @ toLowerCase q @ r) \<or>
            (\<exists>p r. toLowerCase (name x) = p @ toLowerCase q @ r))
       (students s))
   \<and> length (filteredStudents toLowerCase (setSearchQuery q s)) \<le> 20
   \<and> students (setSearchQuery q s) = students s
   \<and> ((\<forall>t. asciiString t \<longrightarrow> toLowerCase t = map lowerAscii t)
        \<and> asciiString q
        \<and> list_all (\<lambda>x. asciiString (regNo x) \<and> asciiString (name x)) (students s)
      \<longrightarrow> filteredStudents toLowerCase (setSearchQuery q s) =
            take 20 (filter
              (\<lambda>x. occursIgnoringCase q (regNo x) \<or> occursIgnoringCase q (name x))
              (students s)))"
proof -
  have general: "filteredStudents toLowerCase (setSearchQuery q s) =
     take 20 (filter
       (\<lambda>x. (\<exists>p r. toLowerCase (regNo x) = p @ toLowerCase q @ r) \<or>
            (\<exists>p r. toLowerCase (name x) = p @ toLowerCase q @ r))
       (students s))"
    by (simp add: filteredStudents_def setSearchQuery_def includes_js_iff)
  have short: "length (filteredStudents toLowerCase (setSearchQuery q s)) \<le> 20"
    by (simp add: filteredStudents_def)
  have frame: "students (setSearchQuery q s) = students s"
    by (simp add: setSearchQuery_def)
  have ascii: "filteredStudents toLowerCase (setSearchQuery q s) =
            take 20 (filter
              (\<lambda>x. occursIgnoringCase q (regNo x) \<or> occursIgnoringCase q (name x))
              (students s))"
    if lower: "\<forall>t. asciiString t \<longrightarrow> toLowerCase t = map lowerAscii t"
      and q: "asciiString q"
      and l: "list_all (\<lambda>x. asciiString (regNo x) \<and> asciiString (name x)) (students s)"
  proof -
    have "filter
            (\<lambda>x. includes_js (toLowerCase (regNo x)) (toLowerCase q) \<or>
                 includes_js (toLowerCase (name x)) (toLowerCase q))
            (students s)
        = filter
            (\<lambda>x. occursIgnoringCase q (regNo x) \<or> occursIgnoringCase q (name x))
            (students s)"
    proof (rule filter_cong [OF refl])
      fix x
      assume "x \<in> set (students s)"
      with l have "asciiString (regNo x)" and "asciiString (name x)"
        by (auto simp: list_all_iff)
      with lower q have "toLowerCase (regNo x) = map lowerAscii (regNo x)"
        and "toLowerCase (name x) = map lowerAscii (name x)"
        and "toLowerCase q = map lowerAscii q"
        by simp_all
      then show "(includes_js (toLowerCase (regNo x)) (toLowerCase q) \<or>
                  includes_js (toLowerCase (name x)) (toLowerCase q))
             = (occursIgnoringCase q (regNo x) \<or> occursIgnoringCase q (name x))"
        by (simp add: includes_js_lowerAscii)
    qed
    then show ?thesis
      by (simp add: filteredStudents_def setSearchQuery_def)
  qed
  from general short frame ascii show ?thesis
    by blast
qed

text \<open>
  With \<open>lowerCaseLatinGreek\<close> for the built-in, which lowers ASCII text letter by letter
  (\<open>lowerCaseLatinGreek_ascii\<close>): the query \<open>ALI\<close> finds Alice and not Bob, by
  her name, of which \<open>Ali\<close> is a part. In the crowd the query \<open>s00\<close> matches all 26
  registration numbers; the preview stops after 20 rows and the list keeps its 26
  students.
\<close>

theorem preview_witness:
  "asciiString (utf16 ''ALI'')
   \<and> list_all (\<lambda>x. asciiString (regNo x) \<and> asciiString (name x)) (students session)
   \<and> filteredStudents lowerCaseLatinGreek (setSearchQuery (utf16 ''ALI'') session) = [alice]
   \<and> take 20 (filter
        (\<lambda>x. occursIgnoringCase (utf16 ''ALI'') (regNo x) \<or>
             occursIgnoringCase (utf16 ''ALI'') (name x))
        (students session)) = [alice]
   \<and> filteredStudents lowerCaseLatinGreek (setSearchQuery (utf16 ''s00'') crowd)
       = replicate 20 alice
   \<and> students (setSearchQuery (utf16 ''s00'') crowd) = replicate 25 alice @ [bob]"
proof -
  have lower: "\<forall>t. asciiString t \<longrightarrow> lowerCaseLatinGreek t = map lowerAscii t"
    by (simp add: lowerCaseLatinGreek_ascii)
  have q: "asciiString (utf16 ''ALI'')"
    by code_simp
  have l: "list_all (\<lambda>x. asciiString (regNo x) \<and> asciiString (name x)) (students session)"
    by code_simp
  have a: "filteredStudents lowerCaseLatinGreek (setSearchQuery (utf16 ''ALI'') session) = [alice]"
    by code_simp
  have b: "filteredStudents lowerCaseLatinGreek (setSearchQuery (utf16 ''s00'') crowd)
             = replicate 20 alice"
    by code_simp
  have c: "students (setSearchQuery (utf16 ''s00'') crowd) = replicate 25 alice @ [bob]"
    by (simp add: setSearchQuery_def crowd_def)
  have "filteredStudents lowerCaseLatinGreek (setSearchQuery (utf16 ''ALI'') session) =
           take 20 (filter
             (\<lambda>x. occursIgnoringCase (utf16 ''ALI'') (regNo x) \<or>
                  occursIgnoringCase (utf16 ''ALI'') (name x))
             (students session))"
    using preview_is_first_20_lowered_matches [of lowerCaseLatinGreek "utf16 ''ALI''" session]
      lower q l
    by blast
  with a have d: "take 20 (filter
        (\<lambda>x. occursIgnoringCase (utf16 ''ALI'') (regNo x) \<or>
             occursIgnoringCase (utf16 ''ALI'') (name x))
        (students session)) = [alice]"
    by simp
  from q l a d b c show ?thesis
    by blast
qed

text \<open>
  Claim C10 as it was stated, for every list and every query, fails outside ASCII text.
  The name of \<open>odos\<close> ends with a capital sigma, so the query of one capital sigma is a
  part of the name as it stands, and \<open>odos\<close> is the one student whose name has the query as
  a part up to case. \<^verbatim>\<open>toLowerCase\<close> turns the sigma at the end of the name into the
  final small sigma U+03C2, and the sigma that is the whole query into U+03C3: the lowered
  query is not a part of the lowered name, and the preview is empty.
\<close>

theorem preview_misses_final_sigma:
  "students greekSession = [odos]
   \<and> name odos = [0x039F, 0x0394, 0x039F] @ sigmaQuery @ []
   \<and> take 20 (filter
        (\<lambda>x. occursIgnoringCase sigmaQuery (regNo x) \<or> occursIgnoringCase sigmaQuery (name x))
        (students greekSession)) = [odos]
   \<and> lowerCaseLatinGreek (name odos) = [0x03BF, 0x03B4, 0x03BF, 0x03C2]
   \<and> lowerCaseLatinGreek sigmaQuery = [0x03C3]
   \<and> filteredStudents lowerCaseLatinGreek (setSearchQuery sigmaQuery greekSession) = []"
proof -
  have s: "students greekSession = [odos]"
    by (simp add: greekSession_def)
  have n: "name odos = [0x039F, 0x0394, 0x039F] @ sigmaQuery @ []"
    by (simp add: odos_def sigmaQuery_def)
  have "list_all2 sameLetter sigmaQuery sigmaQuery"
    by (simp add: sigmaQuery_def sameLetter_def)
  with n have "occursIgnoringCase sigmaQuery (name odos)"
    unfolding occursIgnoringCase_def by blast
  with s have f: "take 20 (filter
        (\<lambda>x. occursIgnoringCase sigmaQuery (regNo x) \<or> occursIgnoringCase sigmaQuery (name x))
        (students greekSession)) = [odos]"
    by simp
  have l1: "lowerCaseLatinGreek (name odos) = [0x03BF, 0x03B4, 0x03BF, 0x03C2]"
    by code_simp
  have l2: "lowerCaseLatinGreek sigmaQuery = [0x03C3]"
    by code_simp
  have e: "filteredStudents lowerCaseLatinGreek (setSearchQuery sigmaQuery greekSession) = []"
    by code_simp
  from s n f l1 l2 e show ?thesis
    by blast
qed


section \<open>The statistics\<close>

text \<open>
  Claim C4. On the empty list the aggregator returns 0 students, 0 passed, 0 failed and
  the average 0. The average is the finite number 0 and not NaN: the quotient that the
  guard keeps from being computed, the sum of no marks over the count 0, is NaN.
\<close>

theorem aggregator_empty:
  "statsAggregator [] =
     \<lparr> totalStudents = 0, totalPassed = 0, totalFailed = 0, averageScore = Finite 0 \<rparr>
   \<and> averageScore (statsAggregator []) \<noteq> NaN
   \<and> js_div (js_sum (map totalMarks ([] :: StudentData list)))
        (Finite (of_nat (length ([] :: StudentData list)))) = NaN"
  by (simp add: statsAggregator_def)

text \<open>
  Claim C5. On a list that is not empty, whose total marks are finite numbers, the
  aggregator returns the length of the list, the number of positions that hold a PASS
  result, the number of positions that hold a FAIL result, and as the average the sum of
  the totals divided by the length. For two students with the totals 40 and 80 the
  average is 60.
\<close>

theorem aggregator_nonempty:
  assumes "records \<noteq> []" and "map totalMarks records = map Finite totals"
  shows "totalStudents (statsAggregator records) = length records
       \<and> totalPassed (statsAggregator records) =
           card {i. i < length records \<and> resultStatus (records ! i) = Result_PASS}
       \<and> totalFailed (statsAggregator records) =
           card {i. i < length records \<and> resultStatus (records ! i) = Result_FAIL}
       \<and> averageScore (statsAggregator records) =
           Finite (sum_list totals / of_nat (length records))
       \<and> (\<forall>a b. totalMarks a = Finite 40 \<and> totalMarks b = Finite 80 \<longrightarrow>
             averageScore (statsAggregator [a, b]) = Finite 60)"
proof -
  have "averageScore (statsAggregator records) =
          js_div (js_sum (map totalMarks records)) (Finite (of_nat (length records)))"
    using assms(1) by (simp add: statsAggregator_def)
  also have "\<dots> = Finite (sum_list totals / of_nat (length records))"
    using assms(1) by (simp add: assms(2) js_sum_Finite)
  finally have avg: "averageScore (statsAggregator records) =
      Finite (sum_list totals / of_nat (length records))" .
  have two: "\<forall>a b. totalMarks a = Finite 40 \<and> totalMarks b = Finite 80 \<longrightarrow>
             averageScore (statsAggregator [a, b]) = Finite 60"
    by (simp add: statsAggregator_def)
  show ?thesis
    using avg two by (simp add: statsAggregator_def length_filter_conv_card)
qed

text \<open>Alice (total 40, failed) and Bob (total 80, passed): 2 students, 1 and 1, average 60.\<close>

theorem aggregator_nonempty_witness:
  "[alice, bob] \<noteq> [] \<and> map totalMarks [alice, bob] = map Finite [40, 80]
   \<and> statsAggregator [alice, bob] =
       \<lparr> totalStudents = 2, totalPassed = 1, totalFailed = 1, averageScore = Finite 60 \<rparr>"
proof -
  have h1: "[alice, bob] \<noteq> []"
    by simp
  have h2: "map totalMarks [alice, bob] = map Finite [40, 80]"
    by (simp add: alice_def bob_def)
  have "averageScore (statsAggregator [alice, bob]) =
          Finite (sum_list [40, 80] / of_nat (length [alice, bob]))"
    using aggregator_nonempty [OF h1 h2] by blast
  then have "averageScore (statsAggregator [alice, bob]) = Finite 60"
    by simp
  moreover have "totalStudents (statsAggregator [alice, bob]) = 2"
    and "totalPassed (statsAggregator [alice, bob]) = 1"
    and "totalFailed (statsAggregator [alice, bob]) = 1"
    by (simp_all add: statsAggregator_def alice_def bob_def)
  ultimately have "statsAggregator [alice, bob] =
       \<lparr> totalStudents = 2, totalPassed = 1, totalFailed = 1, averageScore = Finite 60 \<rparr>"
    by (cases "statsAggregator [alice, bob]") simp
  with h1 h2 show ?thesis
    by blast
qed

end
